theory Spec2Isabelle
  imports Main
begin

section \<open>Python strings\<close>

text \<open>
  A Python \<^verbatim>\<open>str\<close> is a sequence of Unicode code points, and \<^verbatim>\<open>len\<close> counts code
  points. A string is therefore a list of natural numbers, one per code point. The
  8-bit characters of HOL cannot hold U+017F, which the case-insensitive patterns of
  \<^verbatim>\<open>parse_quiz_response\<close> accept, so they are used for literals only.
\<close>

type_synonym pystr = "nat list"

definition lit :: "string \<Rightarrow> pystr" where
  "lit s = map of_char s"

text \<open>
  The white space of \<^verbatim>\<open>str.split()\<close>, \<^verbatim>\<open>str.strip()\<close> and of the class
  \<^verbatim>\<open>\s\<close> in a \<^verbatim>\<open>str\<close> pattern: the three use the same table of the interpreter,
  which holds these 29 code points.
\<close>

definition is_space :: "nat \<Rightarrow> bool" where
  "is_space c \<longleftrightarrow>
     (9 \<le> c \<and> c \<le> 13) \<or> (28 \<le> c \<and> c \<le> 32) \<or> c = 133 \<or> c = 160 \<or> c = 5760 \<or>
     (8192 \<le> c \<and> c \<le> 8202) \<or> c = 8232 \<or> c = 8233 \<or> c = 8239 \<or> c = 8287 \<or> c = 12288"

text \<open>\<^verbatim>\<open>s.strip()\<close>\<close>

definition strip :: "pystr \<Rightarrow> pystr" where
  "strip s = rev (dropWhile is_space (rev (dropWhile is_space s)))"

text \<open>
  \<^verbatim>\<open>s.split()\<close>: the maximal runs of characters that are not white space, in order.
  \<open>cur\<close> is the word being read.
\<close>

fun split_from :: "pystr \<Rightarrow> pystr \<Rightarrow> pystr list" where
  "split_from cur [] = (if cur = [] then [] else [cur])"
| "split_from cur (c # cs) =
     (if is_space c then (if cur = [] then split_from [] cs else cur # split_from [] cs)
      else split_from (cur @ [c]) cs)"

definition split_ws :: "pystr \<Rightarrow> pystr list" where
  "split_ws s = split_from [] s"

text \<open>\<^verbatim>\<open>sep.join(xs)\<close>\<close>

fun join :: "pystr \<Rightarrow> pystr list \<Rightarrow> pystr" where
  "join sep [] = []"
| "join sep [x] = x"
| "join sep (x # y # ys) = x @ sep @ join sep (y # ys)"

text \<open>\<^verbatim>\<open>p in s\<close> and \<^verbatim>\<open>s.startswith(p)\<close>\<close>

definition startswith :: "pystr \<Rightarrow> pystr \<Rightarrow> bool" where
  "startswith s p \<longleftrightarrow> take (length p) s = p"

fun contains :: "pystr \<Rightarrow> pystr \<Rightarrow> bool" where
  "contains p [] = (p = [])"
| "contains p (c # cs) = (startswith (c # cs) p \<or> contains p cs)"

section \<open>chunk\_text\<close>

text \<open>
  The loop of \<^verbatim>\<open>chunk_text\<close> over the words, with its three variables
  \<^verbatim>\<open>chunks\<close>, \<^verbatim>\<open>current_chunk\<close> and \<^verbatim>\<open>current_length\<close>. The append inside the
  loop is not guarded: it also runs when \<^verbatim>\<open>current_chunk\<close> is still empty.
\<close>

fun chunk_loop :: "int \<Rightarrow> pystr list \<Rightarrow> pystr list \<Rightarrow> pystr list \<Rightarrow> int \<Rightarrow> pystr list \<times> pystr list" where
  "chunk_loop max_length [] chunks current_chunk current_length = (chunks, current_chunk)"
| "chunk_loop max_length (word # words) chunks current_chunk current_length =
     (let word_length = int (length word) + 1 in
      if current_length + word_length > max_length
      then chunk_loop max_length words (chunks @ [join (lit '' '') current_chunk]) [word] word_length
      else chunk_loop max_length words chunks (current_chunk @ [word]) (current_length + word_length))"

definition chunk_text :: "pystr \<Rightarrow> int \<Rightarrow> pystr list" where
  "chunk_text text max_length =
     (case chunk_loop max_length (split_ws text) [] [] 0 of
        (chunks, current_chunk) \<Rightarrow>
          if current_chunk \<noteq> [] then chunks @ [join (lit '' '') current_chunk] else chunks)"

section \<open>Question records and validate\_quiz\_questions\<close>

text \<open>
  The dictionaries built by \<^verbatim>\<open>parse_quiz_response\<close> have exactly the keys
  \<^verbatim>\<open>question\<close>, \<^verbatim>\<open>options\<close>, \<^verbatim>\<open>correct_answer\<close> and \<^verbatim>\<open>type\<close>;
  \<^verbatim>\<open>options\<close> holds a list or \<^verbatim>\<open>None\<close>.
\<close>

record quiz_question =
  question :: pystr
  options :: "pystr list option"
  correct_answer :: pystr
  qtype :: pystr

text \<open>
  The loop of \<^verbatim>\<open>validate_quiz_questions\<close>. \<^verbatim>\<open>not q.get(k)\<close> holds for the empty
  string, for \<^verbatim>\<open>None\<close> and for the empty list.
\<close>

fun validate_loop :: "quiz_question list \<Rightarrow> bool" where
  "validate_loop [] = True"
| "validate_loop (q # qs) =
     (if question q = [] \<or> correct_answer q = [] then False
      else if qtype q = lit ''mcq''
      then (if (case options q of None \<Rightarrow> True | Some os \<Rightarrow> os = [] \<or> length os \<noteq> 4)
            then False else validate_loop qs)
      else validate_loop qs)"

definition validate_quiz_questions :: "quiz_question list \<Rightarrow> int \<Rightarrow> bool" where
  "validate_quiz_questions questions min_questions =
     (if int (length questions) < min_questions then False else validate_loop questions)"

section \<open>The regular expressions of parse\_quiz\_response\<close>

text \<open>The class \<^verbatim>\<open>[A-D]\<close>, case-sensitive.\<close>

definition option_letter :: "nat \<Rightarrow> bool" where
  "option_letter c \<longleftrightarrow> 65 \<le> c \<and> c \<le> 68"

text \<open>\<^verbatim>\<open>re.search(r'[A-D]\)', block)\<close>, as a truth value.\<close>

fun has_option_letter :: "pystr \<Rightarrow> bool" where
  "has_option_letter (c # d # cs) = ((option_letter c \<and> d = 41) \<or> has_option_letter (d # cs))"
| "has_option_letter [c] = False"
| "has_option_letter [] = False"

text \<open>
  The lookahead \<^verbatim>\<open>(?=\n[A-D]\)|Correct:|$)\<close> at the text \<open>t\<close> that remains. Without
  \<^verbatim>\<open>re.MULTILINE\<close>, \<^verbatim>\<open>$\<close> holds at the end of the string and before a newline that
  ends the string.
\<close>

definition at_stop :: "pystr \<Rightarrow> bool" where
  "at_stop t \<longleftrightarrow>
     (case t of n # l # p # _ \<Rightarrow> n = 10 \<and> option_letter l \<and> p = 41 | _ \<Rightarrow> False) \<or>
     startswith t (lit ''Correct:'') \<or> t = [] \<or> t = [10]"

text \<open>
  The group \<^verbatim>\<open>(.+?)\<close> followed by the lookahead, under \<^verbatim>\<open>re.DOTALL\<close>: the shortest
  non-empty prefix after which the lookahead holds.
\<close>

fun lazy_group :: "pystr \<Rightarrow> pystr option" where
  "lazy_group [] = None"
| "lazy_group (c # cs) = (if at_stop cs then Some [c] else map_option ((#) c) (lazy_group cs))"

text \<open>
  \<^verbatim>\<open>\s*\<close> followed by the rest \<open>k\<close> of a pattern: greedy, so one more white space
  character is tried first, and the matcher falls back to fewer when the rest fails.
\<close>

fun skip_spaces :: "(pystr \<Rightarrow> 'a option) \<Rightarrow> pystr \<Rightarrow> 'a option" where
  "skip_spaces k [] = k []"
| "skip_spaces k (c # cs) =
     (if is_space c
      then (case skip_spaces k cs of Some g \<Rightarrow> Some g | None \<Rightarrow> k (c # cs))
      else k (c # cs))"

text \<open>
  \<^verbatim>\<open>marker\s*(.+?)(?=\n[A-D]\)|Correct:|$)\<close> at the start of \<open>s\<close>, for a literal marker
  (\<^verbatim>\<open>Q:\<close>, \<^verbatim>\<open>A\)\<close> ... \<^verbatim>\<open>D\)\<close>); the result is group 1.
\<close>

definition match_marker :: "pystr \<Rightarrow> pystr \<Rightarrow> pystr option" where
  "match_marker marker s =
     (if startswith s marker then skip_spaces lazy_group (drop (length marker) s) else None)"

text \<open>\<^verbatim>\<open>re.search\<close>: the match at the leftmost position that has one.\<close>

fun search_marker :: "pystr \<Rightarrow> pystr \<Rightarrow> pystr option" where
  "search_marker marker [] = match_marker marker []"
| "search_marker marker (c # cs) =
     (case match_marker marker (c # cs) of Some g \<Rightarrow> Some g | None \<Rightarrow> search_marker marker cs)"

text \<open>
  \<^verbatim>\<open>str.upper\<close> and \<^verbatim>\<open>str.lower\<close> on one code point. They are exact on the code points
  that reach them in this program: ASCII, and U+017F (which \<^verbatim>\<open>lower\<close> leaves as it is).
\<close>

definition upper_cp :: "nat \<Rightarrow> nat" where
  "upper_cp c = (if 97 \<le> c \<and> c \<le> 122 then c - 32 else c)"

definition lower_cp :: "nat \<Rightarrow> nat" where
  "lower_cp c = (if 65 \<le> c \<and> c \<le> 90 then c + 32 else c)"

definition upper :: "pystr \<Rightarrow> pystr" where
  "upper s = map upper_cp s"

text \<open>\<^verbatim>\<open>str.capitalize\<close>: the first character in upper case, the others in lower case.\<close>

definition capitalize :: "pystr \<Rightarrow> pystr" where
  "capitalize s = (case s of [] \<Rightarrow> [] | c # cs \<Rightarrow> upper_cp c # map lower_cp cs)"

text \<open>
  A lower-case pattern character \<open>p\<close> against the character \<open>c\<close> under
  \<^verbatim>\<open>re.IGNORECASE\<close>, for the characters of \<^verbatim>\<open>Correct:\<close>, \<^verbatim>\<open>True\<close> and \<^verbatim>\<open>False\<close>:
  \<open>c\<close> is \<open>p\<close> or its upper case, and the letter s is also matched by U+017F
  (LATIN SMALL LETTER LONG S), as the documentation of \<^verbatim>\<open>re.IGNORECASE\<close> says.
\<close>

definition ci_char :: "nat \<Rightarrow> nat \<Rightarrow> bool" where
  "ci_char p c \<longleftrightarrow> c = p \<or> c = upper_cp p \<or> (p = 115 \<and> c = 383)"

fun ci_startswith :: "pystr \<Rightarrow> pystr \<Rightarrow> bool" where
  "ci_startswith s [] = True"
| "ci_startswith [] (p # ps) = False"
| "ci_startswith (c # cs) (p # ps) = (ci_char p c \<and> ci_startswith cs ps)"

text \<open>The group \<^verbatim>\<open>([A-D])\<close> under \<^verbatim>\<open>re.IGNORECASE\<close>: one of the eight letters a-d, A-D.\<close>

definition letter_group :: "pystr \<Rightarrow> pystr option" where
  "letter_group r =
     (case r of [] \<Rightarrow> None
      | c # _ \<Rightarrow> if 97 \<le> lower_cp c \<and> lower_cp c \<le> 100 then Some [c] else None)"

text \<open>The group \<^verbatim>\<open>(True|False)\<close> under \<^verbatim>\<open>re.IGNORECASE\<close>; the first alternative is tried first.\<close>

definition true_false_group :: "pystr \<Rightarrow> pystr option" where
  "true_false_group r =
     (if ci_startswith r (lit ''true'') then Some (take 4 r)
      else if ci_startswith r (lit ''false'') then Some (take 5 r)
      else None)"

text \<open>
  \<^verbatim>\<open>re.search('Correct:\s*(group)', block, re.IGNORECASE)\<close> for either group; the
  result is group 1 of the leftmost match.
\<close>

definition match_correct :: "(pystr \<Rightarrow> pystr option) \<Rightarrow> pystr \<Rightarrow> pystr option" where
  "match_correct grp s =
     (if ci_startswith s (lit ''correct:'') then skip_spaces grp (drop 8 s) else None)"

fun search_correct :: "(pystr \<Rightarrow> pystr option) \<Rightarrow> pystr \<Rightarrow> pystr option" where
  "search_correct grp [] = match_correct grp []"
| "search_correct grp (c # cs) =
     (case match_correct grp (c # cs) of Some g \<Rightarrow> Some g | None \<Rightarrow> search_correct grp cs)"

text \<open>
  \<^verbatim>\<open>re.split(r'\n(?=Q:|\d+\.)', s)\<close>. The class \<^verbatim>\<open>\d\<close> is the table of Unicode decimal
  digits of the interpreter, which grows with the Unicode version; it is the parameter
  \<open>isdecimal\<close>. \<^verbatim>\<open>\d+\.\<close> holds when some non-empty run of digits is followed by a dot.
\<close>

fun digits_then_dot :: "(nat \<Rightarrow> bool) \<Rightarrow> pystr \<Rightarrow> bool" where
  "digits_then_dot isdecimal [] = False"
| "digits_then_dot isdecimal (c # cs) =
     (isdecimal c \<and> (startswith cs (lit ''.'') \<or> digits_then_dot isdecimal cs))"

definition block_start :: "(nat \<Rightarrow> bool) \<Rightarrow> pystr \<Rightarrow> bool" where
  "block_start isdecimal t \<longleftrightarrow> startswith t (lit ''Q:'') \<or> digits_then_dot isdecimal t"

fun re_split :: "(nat \<Rightarrow> bool) \<Rightarrow> pystr \<Rightarrow> pystr list" where
  "re_split isdecimal [] = [[]]"
| "re_split isdecimal (c # cs) =
     (if c = 10 \<and> block_start isdecimal cs then [] # re_split isdecimal cs
      else (case re_split isdecimal cs of [] \<Rightarrow> [[c]] | b # bs \<Rightarrow> (c # b) # bs))"

section \<open>parse\_quiz\_response\<close>

text \<open>What the body of the \<^verbatim>\<open>try\<close> can raise; the \<^verbatim>\<open>except\<close> clause swallows both.\<close>

datatype block_error = KeyError pystr | IndexError

text \<open>The loop over the four letters that fills \<^verbatim>\<open>options\<close>.\<close>

fun options_loop :: "pystr \<Rightarrow> pystr list \<Rightarrow> pystr list \<Rightarrow> pystr list" where
  "options_loop block [] opts = opts"
| "options_loop block (letter # letters) opts =
     (case search_marker (letter @ lit '')'') block of
        Some g \<Rightarrow> options_loop block letters (opts @ [strip g])
      | None \<Rightarrow> options_loop block letters opts)"

definition letter_to_index :: "pystr \<Rightarrow> nat option" where
  "letter_to_index = map_of [(lit ''A'', 0), (lit ''B'', 1), (lit ''C'', 2), (lit ''D'', 3)]"

text \<open>
  The two branches of a block, and the block. The result is the list of records the
  block appends to \<^verbatim>\<open>questions\<close>: none or one.
\<close>

definition parse_mcq :: "pystr \<Rightarrow> pystr \<Rightarrow> block_error + quiz_question list" where
  "parse_mcq block question_text =
     (let opts = options_loop block [lit ''A'', lit ''B'', lit ''C'', lit ''D''] [] in
      case search_correct letter_group block of
        None \<Rightarrow> Inr []
      | Some g \<Rightarrow>
          if length opts = 4
          then (let correct_letter = upper g in
                case letter_to_index correct_letter of
                  None \<Rightarrow> Inl (KeyError correct_letter)
                | Some i \<Rightarrow>
                    if i < length opts
                    then Inr [\<lparr>question = question_text, options = Some opts,
                               correct_answer = opts ! i, qtype = lit ''mcq''\<rparr>]
                    else Inl IndexError)
          else Inr [])"

definition parse_true_false :: "pystr \<Rightarrow> pystr \<Rightarrow> block_error + quiz_question list" where
  "parse_true_false block question_text =
     (case search_correct true_false_group block of
        None \<Rightarrow> Inr []
      | Some g \<Rightarrow> Inr [\<lparr>question = question_text, options = None,
                         correct_answer = capitalize g, qtype = lit ''true_false''\<rparr>])"

definition parse_block :: "pystr \<Rightarrow> block_error + quiz_question list" where
  "parse_block block =
     (case search_marker (lit ''Q:'') block of
        None \<Rightarrow> Inr []
      | Some g \<Rightarrow>
          (let question_text = strip g in
           if has_option_letter block then parse_mcq block question_text
           else parse_true_false block question_text))"

fun parse_loop :: "pystr list \<Rightarrow> quiz_question list \<Rightarrow> quiz_question list" where
  "parse_loop [] questions = questions"
| "parse_loop (block # blocks) questions =
     (if strip block = [] \<or> \<not> contains (lit ''Q:'') block then parse_loop blocks questions
      else (case parse_block block of
              Inl e \<Rightarrow> parse_loop blocks questions
            | Inr new \<Rightarrow> parse_loop blocks (questions @ new)))"

definition question_blocks :: "(nat \<Rightarrow> bool) \<Rightarrow> pystr \<Rightarrow> pystr list" where
  "question_blocks isdecimal quiz_text = re_split isdecimal (strip quiz_text)"

definition parse_quiz_response :: "(nat \<Rightarrow> bool) \<Rightarrow> pystr \<Rightarrow> pystr \<Rightarrow> quiz_question list" where
  "parse_quiz_response isdecimal quiz_text question_type =
     parse_loop (question_blocks isdecimal quiz_text) []"

section \<open>generate\_quiz and regenerate\_if\_needed\<close>

text \<open>An exception object: the name of its class and what \<^verbatim>\<open>str(e)\<close> gives.\<close>

datatype exn = Exn (exn_class: string) (exn_str: pystr)

text \<open>
  The generative model of the library: \<^verbatim>\<open>genai.GenerativeModel('gemini-pro')\<close>,
  \<^verbatim>\<open>generate_content(prompt)\<close> and \<^verbatim>\<open>response.text\<close>. It belongs to an external
  service, so it is a parameter: a step function on a state \<open>'s\<close> of its own, which
  answers a prompt with a completion or raises.
\<close>

type_synonym 's generative_model = "'s \<Rightarrow> pystr \<Rightarrow> (exn + pystr) \<times> 's"

text \<open>\<^verbatim>\<open>str(n)\<close> for an integer, as the f-strings of the prompts format it.\<close>

fun str_nat :: "nat \<Rightarrow> pystr" where
  "str_nat n = (if n < 10 then [48 + n] else str_nat (n div 10) @ [48 + n mod 10])"

declare str_nat.simps [simp del]

definition str_int :: "int \<Rightarrow> pystr" where
  "str_int i = (if i < 0 then 45 # str_nat (nat (- i)) else str_nat (nat i))"

definition mcq_format :: "pystr list" where
  "mcq_format =
     [lit ''Q: [Clear question here]'', lit ''A) [First option]'', lit ''B) [Second option]'',
      lit ''C) [Third option]'', lit ''D) [Fourth option]'', lit ''Correct: [A/B/C/D]'']"

definition true_false_format :: "pystr list" where
  "true_false_format = [lit ''Q: [Statement here]'', lit ''Correct: [True/False]'']"

definition quiz_prompt :: "pystr \<Rightarrow> int \<Rightarrow> pystr \<Rightarrow> pystr" where
  "quiz_prompt text num_questions question_type =
     (if question_type = lit ''mcq''
      then join [10]
        ([lit ''Generate exactly '' @ str_int num_questions @
            lit '' multiple-choice questions from this text.'',
          [], lit ''Format EXACTLY like this for each question:''] @ mcq_format @
         [[], lit ''Text to generate questions from:'', text])
      else if question_type = lit ''true_false''
      then join [10]
        ([lit ''Generate exactly '' @ str_int num_questions @
            lit '' true/false questions from this text.'',
          [], lit ''Format EXACTLY like this for each question:''] @ true_false_format @
         [[], lit ''Text to generate questions from:'', text])
      else (let mcq_count = num_questions div 2; tf_count = num_questions - mcq_count in
        join [10]
        ([lit ''Generate '' @ str_int mcq_count @ lit '' multiple-choice questions and '' @
            str_int tf_count @ lit '' true/false questions from this text.'',
          [], lit ''For MCQ questions, format EXACTLY like this:''] @ mcq_format @
         [[], lit ''For True/False questions, format EXACTLY like this:''] @ true_false_format @
         [[], lit ''Text to generate questions from:'', text])))"

text \<open>
  \<^verbatim>\<open>generate_quiz\<close>, the call of the Model Client that an attempt makes: the prompt is
  built and the model is called once. Whatever the library raises is caught, and a new
  \<^verbatim>\<open>Exception\<close> is raised whose message is the old one behind a fixed prefix: this
  exception is the failure of the Model Client that the callers see.
\<close>

definition generate_quiz :: "'s generative_model \<Rightarrow> 's \<Rightarrow> pystr \<Rightarrow> int \<Rightarrow> pystr \<Rightarrow> (exn + pystr) \<times> 's" where
  "generate_quiz model s text num_questions question_type =
     (case model s (quiz_prompt text num_questions question_type) of
        (Inr completion, s') \<Rightarrow> (Inr completion, s')
      | (Inl e, s') \<Rightarrow> (Inl (Exn ''Exception'' (lit ''Quiz generation failed: '' @ exn_str e)), s'))"

text \<open>
  Reading a local variable that no statement has bound yet raises
  \<^verbatim>\<open>UnboundLocalError\<close> (the message is the one of Python 3.11; nothing below depends on
  its wording).
\<close>

definition UnboundLocalError :: "string \<Rightarrow> exn" where
  "UnboundLocalError v =
     Exn ''UnboundLocalError''
       (lit ''cannot access local variable '' @ [39] @ lit v @ [39] @
        lit '' where it is not associated with a value'')"

text \<open>
  The loop \<^verbatim>\<open>for attempt in range(max_attempts)\<close>, by the number of iterations left, and
  the \<^verbatim>\<open>return questions\<close> after it. The variable \<^verbatim>\<open>questions\<close> is \<open>None\<close> until an
  iteration binds it.
\<close>

fun regenerate_loop ::
  "(nat \<Rightarrow> bool) \<Rightarrow> 's generative_model \<Rightarrow> pystr \<Rightarrow> int \<Rightarrow> pystr \<Rightarrow> nat \<Rightarrow> 's \<Rightarrow>
   quiz_question list option \<Rightarrow> (exn + quiz_question list) \<times> 's" where
  "regenerate_loop isdecimal model text num_questions question_type 0 s questions =
     (case questions of
        None \<Rightarrow> (Inl (UnboundLocalError ''questions''), s)
      | Some qs \<Rightarrow> (Inr qs, s))"
| "regenerate_loop isdecimal model text num_questions question_type (Suc k) s questions =
     (case generate_quiz model s text num_questions question_type of
        (Inl e, s') \<Rightarrow> (Inl e, s')
      | (Inr quiz_text, s') \<Rightarrow>
          (let qs = parse_quiz_response isdecimal quiz_text question_type in
           if validate_quiz_questions qs (max 1 (num_questions - 2)) then (Inr qs, s')
           else regenerate_loop isdecimal model text num_questions question_type k s' (Some qs)))"

definition regenerate_if_needed ::
  "(nat \<Rightarrow> bool) \<Rightarrow> 's generative_model \<Rightarrow> 's \<Rightarrow> pystr \<Rightarrow> int \<Rightarrow> pystr \<Rightarrow> int \<Rightarrow>
   (exn + quiz_question list) \<times> 's" where
  "regenerate_if_needed isdecimal model s text num_questions question_type max_attempts =
     regenerate_loop isdecimal model text num_questions question_type (nat max_attempts) s None"

section \<open>Notions used to state the properties\<close>

text \<open>
  A model that also keeps the list of the prompts it was sent, so that the calls made
  to it can be counted.
\<close>

definition logged :: "'s generative_model \<Rightarrow> ('s \<times> pystr list) generative_model" where
  "logged model = (\<lambda>(s, log) prompt. case model s prompt of (r, s') \<Rightarrow> (r, (s', log @ [prompt])))"

text \<open>The outcomes of \<open>k\<close> calls in a row with the same prompt, from the state \<open>s\<close>.\<close>

fun replies :: "'s generative_model \<Rightarrow> 's \<Rightarrow> pystr \<Rightarrow> nat \<Rightarrow> (exn + pystr) list" where
  "replies model s prompt 0 = []"
| "replies model s prompt (Suc k) =
     (case model s prompt of (r, s') \<Rightarrow> r # replies model s' prompt k)"


text \<open>A model that plays a script: its state is the list of the outcomes still to come.\<close>

fun scripted :: "(exn + pystr) list generative_model" where
  "scripted [] prompt = (Inl (Exn ''StopIteration'' []), [])"
| "scripted (r # rs) prompt = (r, rs)"

text \<open>The ASCII digits, the part of the table of decimal digits every Unicode version has.\<close>

definition ascii_decimal :: "nat \<Rightarrow> bool" where
  "ascii_decimal c \<longleftrightarrow> 48 \<le> c \<and> c \<le> 57"



text \<open>
  The records one block adds to the result: one iteration of the loop of
  \<^verbatim>\<open>parse_quiz_response\<close>, with its \<^verbatim>\<open>continue\<close> and its \<^verbatim>\<open>except\<close> clause.
\<close>

definition block_records :: "pystr \<Rightarrow> quiz_question list" where
  "block_records block =
     (if strip block = [] \<or> \<not> contains (lit ''Q:'') block then []
      else (case parse_block block of Inl e \<Rightarrow> [] | Inr new \<Rightarrow> new))"



text \<open>The number of options of a record; a record without the list has none.\<close>

definition option_count :: "quiz_question \<Rightarrow> nat" where
  "option_count q = (case options q of None \<Rightarrow> 0 | Some os \<Rightarrow> length os)"

section \<open>Example data\<close>

definition sample_mcq :: quiz_question where
  "sample_mcq =
     \<lparr>question = lit ''What is 2+2?'', options = Some [lit ''3'', lit ''4'', lit ''5'', lit ''6''],
      correct_answer = lit ''4'', qtype = lit ''mcq''\<rparr>"

definition sample_true_false :: quiz_question where
  "sample_true_false =
     \<lparr>question = lit ''The sky is blue.'', options = None,
      correct_answer = lit ''True'', qtype = lit ''true_false''\<rparr>"

definition true_false_completion :: pystr where
  "true_false_completion = lit ''Q: The sky is blue.\<newline>Correct: True''"

definition refusal_completion :: pystr where
  "refusal_completion = lit ''I cannot help with that.''"




definition long_s_completion :: pystr where
  "long_s_completion = lit ''Q: Water is dry.\<newline>Correct: fal'' @ [383] @ lit ''e''"




section \<open>Properties of chunk\_text\<close>

lemma lit_space: "lit '' '' = [32]"
  by (simp add: lit_def)

lemma join_sp_Cons: "join [32] (x # xs) = x @ concat (map ((#) 32) xs)"
  by (induction xs arbitrary: x) auto

lemma join_snoc: "join sep (xs @ [x]) = (if xs = [] then x else join sep xs @ sep @ x)"
proof (induction sep xs rule: join.induct)
  case (3 sep a b ys)
  then show ?case by simp
qed simp_all

text \<open>
  Once \<^verbatim>\<open>current_chunk\<close> holds a word, the loop keeps it non-empty, and the chunks
  joined by spaces are the words read so far joined by spaces.
\<close>

lemma chunk_loop_join:
  "cur \<noteq> [] \<Longrightarrow> chunk_loop m ws chunks cur len = (ch, cu) \<Longrightarrow>
     cu \<noteq> [] \<and> join [32] (ch @ [join [32] cu]) =
        join [32] (chunks @ [join [32] cur]) @ concat (map ((#) 32) ws)"
proof (induction ws arbitrary: chunks cur len)
  case Nil
  then show ?case by simp
next
  case (Cons w ws)
  show ?case
  proof (cases "len + (int (length w) + 1) > m")
    case True
    with Cons.prems have "chunk_loop m ws (chunks @ [join [32] cur]) [w] (int (length w) + 1) = (ch, cu)"
      by (simp add: lit_space)
    from Cons.IH[OF _ this] have "cu \<noteq> []" and
      e: "join [32] (ch @ [join [32] cu]) =
          join [32] ((chunks @ [join [32] cur]) @ [join [32] [w]]) @ concat (map ((#) 32) ws)"
      by simp_all
    have "join [32] ((chunks @ [join [32] cur]) @ [join [32] [w]]) =
          join [32] (chunks @ [join [32] cur]) @ [32] @ w"
      by (simp only: join_snoc) simp
    with e \<open>cu \<noteq> []\<close> show ?thesis by simp
  next
    case False
    with Cons.prems have "chunk_loop m ws chunks (cur @ [w]) (len + (int (length w) + 1)) = (ch, cu)"
      by (simp add: lit_space)
    from Cons.IH[OF _ this] have "cu \<noteq> []" and
      e: "join [32] (ch @ [join [32] cu]) =
          join [32] (chunks @ [join [32] (cur @ [w])]) @ concat (map ((#) 32) ws)"
      by simp_all
    have "join [32] (chunks @ [join [32] (cur @ [w])]) =
          join [32] (chunks @ [join [32] cur]) @ [32] @ w"
      using Cons.prems(1) by (simp add: join_snoc)
    with e \<open>cu \<noteq> []\<close> show ?thesis by simp
  qed
qed

text \<open>
  When the first word fits into \<^verbatim>\<open>max_length\<close> (with the space counted for it), the
  chunks joined by single spaces are the text with its white space collapsed.
\<close>

lemma chunk_text_first_fits:
  assumes "split_ws text = w # ws" "int (length w) + 1 \<le> max_length"
  shows "join (lit '' '') (chunk_text text max_length) = join (lit '' '') (split_ws text)"
proof -
  obtain ch cu where r: "chunk_loop max_length ws [] [w] (int (length w) + 1) = (ch, cu)"
    by (cases "chunk_loop max_length ws [] [w] (int (length w) + 1)") auto
  from chunk_loop_join[OF _ r] have "cu \<noteq> []"
    and e: "join [32] (ch @ [join [32] cu]) = w @ concat (map ((#) 32) ws)" by simp_all
  have "chunk_text text max_length = ch @ [join [32] cu]"
    using assms r \<open>cu \<noteq> []\<close> by (simp add: chunk_text_def lit_space)
  then show ?thesis using e assms(1) by (simp add: join_sp_Cons lit_space)
qed

text \<open>
  When the first word does not fit, the loop appends the join of the empty
  \<^verbatim>\<open>current_chunk\<close>: the chunks joined by single spaces are the collapsed text behind a
  space.
\<close>

lemma chunk_text_first_too_long:
  assumes "split_ws text = w # ws" "int (length w) + 1 > max_length"
  shows "join (lit '' '') (chunk_text text max_length) = 32 # join (lit '' '') (split_ws text)"
proof -
  obtain ch cu where r: "chunk_loop max_length ws [[]] [w] (int (length w) + 1) = (ch, cu)"
    by (cases "chunk_loop max_length ws [[]] [w] (int (length w) + 1)") auto
  from chunk_loop_join[OF _ r] have "cu \<noteq> []"
    and e: "join [32] (ch @ [join [32] cu]) = 32 # w @ concat (map ((#) 32) ws)" by simp_all
  have c: "chunk_text text max_length = ch @ [join [32] cu]"
    using assms r \<open>cu \<noteq> []\<close> by (simp add: chunk_text_def lit_space)
  then show ?thesis using e assms(1) by (simp add: join_sp_Cons lit_space)
qed

lemma chunk_text_no_words: "split_ws text = [] \<Longrightarrow> chunk_text text max_length = []"
  by (simp add: chunk_text_def)

text \<open>
  Claim C5. The chunks of \<^verbatim>\<open>chunk_text\<close>, joined in order by single spaces, should be
  the text with its white space collapsed, also when a word is longer than
  \<^verbatim>\<open>max_length\<close>. For the text \<^verbatim>\<open>hello\<close> and \<^verbatim>\<open>max_length = 3\<close> the code
  returns an empty chunk before the word, and the join starts with a space.
\<close>

theorem chunk_text_overlong_first_word:
  "chunk_text (lit ''hello'') 3 = [[], lit ''hello''] \<and>
   join (lit '' '') (chunk_text (lit ''hello'') 3) = lit '' hello'' \<and>
   join (lit '' '') (split_ws (lit ''hello'')) = lit ''hello'' \<and>
   join (lit '' '') (chunk_text (lit ''hello'') 3) \<noteq> join (lit '' '') (split_ws (lit ''hello''))"
  by (simp add: chunk_text_def split_ws_def lit_def is_space_def)

section \<open>Properties of validate\_quiz\_questions\<close>

lemma validate_loop_iff:
  "validate_loop qs \<longleftrightarrow>
     (\<forall>q \<in> set qs. question q \<noteq> [] \<and> correct_answer q \<noteq> [] \<and>
        (qtype q = lit ''mcq'' \<longrightarrow> option_count q = 4))"
  by (induction qs) (auto simp: option_count_def split: option.splits)

text \<open>
  Claim C4. \<^verbatim>\<open>validate_quiz_questions\<close> returns false exactly when there are fewer
  records than \<^verbatim>\<open>min_questions\<close>, or some record has an empty question or an empty
  correct answer, or some record of type \<^verbatim>\<open>mcq\<close> does not have 4 options. Records of
  another type are exempt from the count of options. The function is a predicate on
  its two arguments: it reads and changes nothing else.
\<close>

theorem validate_quiz_questions_false_iff:
  "(\<not> validate_quiz_questions questions min_questions \<longleftrightarrow>
      int (length questions) < min_questions \<or>
      (\<exists>q \<in> set questions. question q = [] \<or> correct_answer q = []) \<or>
      (\<exists>q \<in> set questions. qtype q = lit ''mcq'' \<and> option_count q \<noteq> 4)) \<and>
   ((\<forall>q \<in> set questions. qtype q \<noteq> lit ''mcq'') \<longrightarrow>
      (\<not> validate_quiz_questions questions min_questions \<longleftrightarrow>
         int (length questions) < min_questions \<or>
         (\<exists>q \<in> set questions. question q = [] \<or> correct_answer q = [])))"
  unfolding validate_quiz_questions_def validate_loop_iff by auto

theorem validate_quiz_questions_false_iff_witness:
  "\<not> validate_quiz_questions [] 3 \<and>
   validate_quiz_questions [sample_mcq, sample_mcq, sample_mcq] 3 \<and>
   \<not> validate_quiz_questions [sample_mcq\<lparr>options := Some [lit ''3'', lit ''4'', lit ''5'']\<rparr>] 1 \<and>
   validate_quiz_questions [sample_true_false] 1"
  using validate_quiz_questions_false_iff [of "[]" 3]
    validate_quiz_questions_false_iff [of "[sample_mcq, sample_mcq, sample_mcq]" 3]
    validate_quiz_questions_false_iff [of "[sample_mcq\<lparr>options := Some [lit ''3'', lit ''4'', lit ''5'']\<rparr>]" 1]
    validate_quiz_questions_false_iff [of "[sample_true_false]" 1]
  by (simp add: sample_mcq_def sample_true_false_def option_count_def lit_def)

section \<open>Evaluating the parser\<close>

lemmas parse_eval =
  parse_quiz_response_def question_blocks_def lit_def strip_def is_space_def block_start_def
  startswith_def parse_block_def match_marker_def at_stop_def option_letter_def
  parse_true_false_def parse_mcq_def match_correct_def true_false_group_def letter_group_def
  ci_char_def upper_cp_def lower_cp_def capitalize_def upper_def letter_to_index_def

lemma parse_true_false_completion:
  "parse_quiz_response d true_false_completion qt = [sample_true_false]"
  by (simp add: true_false_completion_def sample_true_false_def parse_eval)

lemma parse_refusal_completion:
  "parse_quiz_response d refusal_completion qt = []"
  by (simp add: refusal_completion_def parse_eval)

lemma validate_sample_true_false:
  "validate_quiz_questions [sample_true_false] 1" "\<not> validate_quiz_questions [sample_true_false] 3"
  "\<not> validate_quiz_questions [] 1" "\<not> validate_quiz_questions [] 3"
  by (simp_all add: validate_quiz_questions_def sample_true_false_def lit_def)

section \<open>Properties of regenerate\_if\_needed\<close>

text \<open>
  Claim C2. When the records parsed from the first completion validate against
  \<^verbatim>\<open>max(1, num_questions - 2)\<close>, \<^verbatim>\<open>regenerate_if_needed\<close> returns these records and
  the model has been called once: the log of the prompts it was sent holds one prompt.
  There is a first completion when \<^verbatim>\<open>max_attempts\<close> is at least 1.
\<close>

theorem first_attempt_valid_one_call:
  assumes "1 \<le> max_attempts"
    and "model s (quiz_prompt text num_questions question_type) = (Inr completion, s')"
    and "validate_quiz_questions (parse_quiz_response isdecimal completion question_type)
           (max 1 (num_questions - 2))"
  shows "regenerate_if_needed isdecimal (logged model) (s, []) text num_questions question_type max_attempts =
           (Inr (parse_quiz_response isdecimal completion question_type),
            (s', [quiz_prompt text num_questions question_type]))"
proof -
  from assms(1) obtain k where k: "nat max_attempts = Suc k"
    by (cases "nat max_attempts") auto
  have "generate_quiz (logged model) (s, []) text num_questions question_type =
          (Inr completion, (s', [quiz_prompt text num_questions question_type]))"
    using assms(2) by (simp add: generate_quiz_def logged_def)
  then show ?thesis
    using assms(3) by (simp add: regenerate_if_needed_def k)
qed

theorem first_attempt_valid_one_call_witness:
  "regenerate_if_needed ascii_decimal (logged scripted)
     ([Inr true_false_completion, Inr refusal_completion], []) (lit ''notes'') 3 (lit ''true_false'') 2 =
   (Inr [sample_true_false],
    ([Inr refusal_completion], [quiz_prompt (lit ''notes'') 3 (lit ''true_false'')]))"
  using first_attempt_valid_one_call [of 2 scripted "[Inr true_false_completion, Inr refusal_completion]"
      "lit ''notes''" 3 "lit ''true_false''" true_false_completion "[Inr refusal_completion]" ascii_decimal]
  by (simp add: parse_true_false_completion validate_sample_true_false)

lemma regenerate_loop_exhausted:
  assumes "\<forall>r \<in> set (replies model s (quiz_prompt text n qt) (Suc j)).
             \<exists>t. r = Inr t \<and> \<not> validate_quiz_questions (parse_quiz_response d t qt) (max 1 (n - 2))"
  shows "\<exists>t s'. last (replies model s (quiz_prompt text n qt) (Suc j)) = Inr t \<and>
           regenerate_loop d (logged model) text n qt (Suc j) (s, log) q0 =
             (Inr (parse_quiz_response d t qt), (s', log @ replicate (Suc j) (quiz_prompt text n qt)))"
  using assms
proof (induction j arbitrary: s log q0)
  case 0
  obtain r s1 where c: "model s (quiz_prompt text n qt) = (r, s1)"
    by (cases "model s (quiz_prompt text n qt)") auto
  with "0.prems" obtain t where t: "r = Inr t"
    and nv: "\<not> validate_quiz_questions (parse_quiz_response d t qt) (max 1 (n - 2))"
    by auto
  have "generate_quiz (logged model) (s, log) text n qt = (Inr t, (s1, log @ [quiz_prompt text n qt]))"
    using c t by (simp add: generate_quiz_def logged_def)
  with nv c t show ?case by simp
next
  case (Suc j)
  let ?P = "quiz_prompt text n qt"
  obtain r s1 where c: "model s ?P = (r, s1)"
    by (cases "model s ?P") auto
  with Suc.prems obtain t where t: "r = Inr t"
    and nv: "\<not> validate_quiz_questions (parse_quiz_response d t qt) (max 1 (n - 2))"
    and rest: "\<forall>r \<in> set (replies model s1 ?P (Suc j)).
             \<exists>t. r = Inr t \<and> \<not> validate_quiz_questions (parse_quiz_response d t qt) (max 1 (n - 2))"
    by auto
  from Suc.IH[OF rest, of "log @ [?P]" "Some (parse_quiz_response d t qt)"]
  obtain t' s' where l: "last (replies model s1 ?P (Suc j)) = Inr t'"
    and s': "regenerate_loop d (logged model) text n qt (Suc j) (s1, log @ [?P])
       (Some (parse_quiz_response d t qt)) =
     (Inr (parse_quiz_response d t' qt), (s', (log @ [?P]) @ replicate (Suc j) ?P))"
    by blast
  have g: "generate_quiz (logged model) (s, log) text n qt = (Inr t, (s1, log @ [?P]))"
    using c t by (simp add: generate_quiz_def logged_def)
  have ne: "replies model s1 ?P (Suc j) \<noteq> []"
    by (cases "model s1 ?P") auto
  have l2: "last (replies model s ?P (Suc (Suc j))) = Inr t'"
    using c l ne by (simp del: replies.simps add: replies.simps(2)[of model s "?P" "Suc j"])
  have "regenerate_loop d (logged model) text n qt (Suc (Suc j)) (s, log) q0 =
      (Inr (parse_quiz_response d t' qt), (s', log @ replicate (Suc (Suc j)) ?P))"
    using g nv s' by (simp del: regenerate_loop.simps add: regenerate_loop.simps(2)[of d "logged model" "text" n qt "Suc j" "(s, log)" q0])
  with l2 show ?case by blast
qed

text \<open>
  Claim C3. When \<^verbatim>\<open>max_attempts\<close> is at least 1, no call of the model fails and the
  records of no attempt validate, \<^verbatim>\<open>regenerate_if_needed\<close> returns the records parsed
  from the completion of the last attempt, and raises nothing; the model has been
  called \<^verbatim>\<open>max_attempts\<close> times.
\<close>

theorem no_attempt_valid_returns_last:
  assumes "1 \<le> max_attempts"
    and "\<forall>r \<in> set (replies model s (quiz_prompt text num_questions question_type) (nat max_attempts)).
           \<exists>t. r = Inr t \<and>
             \<not> validate_quiz_questions (parse_quiz_response isdecimal t question_type)
                 (max 1 (num_questions - 2))"
  shows "\<exists>t s'. last (replies model s (quiz_prompt text num_questions question_type) (nat max_attempts)) = Inr t \<and>
           regenerate_if_needed isdecimal (logged model) (s, []) text num_questions question_type max_attempts =
             (Inr (parse_quiz_response isdecimal t question_type),
              (s', replicate (nat max_attempts) (quiz_prompt text num_questions question_type)))"
proof -
  from assms(1) obtain j where j: "nat max_attempts = Suc j"
    by (cases "nat max_attempts") auto
  from regenerate_loop_exhausted[OF assms(2)[unfolded j], of "[]" None]
  show ?thesis unfolding regenerate_if_needed_def j by simp
qed

theorem no_attempt_valid_returns_last_witness:
  "fst (regenerate_if_needed ascii_decimal (logged scripted)
     ([Inr refusal_completion, Inr true_false_completion], []) (lit ''notes'') 5 (lit ''mixed'') 2) =
     Inr [sample_true_false] \<and>
   snd (snd (regenerate_if_needed ascii_decimal (logged scripted)
     ([Inr refusal_completion, Inr true_false_completion], []) (lit ''notes'') 5 (lit ''mixed'') 2)) =
     [quiz_prompt (lit ''notes'') 5 (lit ''mixed''), quiz_prompt (lit ''notes'') 5 (lit ''mixed'')]"
proof -
  let ?P = "quiz_prompt (lit ''notes'') 5 (lit ''mixed'')"
  let ?s = "[Inr refusal_completion, Inr true_false_completion] :: (exn + pystr) list"
  have r: "replies scripted ?s ?P (nat 2) = ?s"
    by (simp add: numeral_2_eq_2)
  have h: "\<forall>r \<in> set (replies scripted ?s ?P (nat 2)).
      \<exists>t. r = Inr t \<and> \<not> validate_quiz_questions (parse_quiz_response ascii_decimal t (lit ''mixed'')) (max 1 (5 - 2))"
    unfolding r by (simp add: parse_true_false_completion parse_refusal_completion validate_sample_true_false)
  from no_attempt_valid_returns_last [of 2 scripted ?s "lit ''notes''" 5 "lit ''mixed''" ascii_decimal, OF _ h]
  show ?thesis unfolding r
    by (auto simp: parse_true_false_completion numeral_2_eq_2)
qed

text \<open>
  What \<^verbatim>\<open>generate_quiz\<close> raises is built from the failure of the library: the class is
  \<^verbatim>\<open>Exception\<close>, and the message is the one of the failure behind a prefix.
\<close>

lemma generate_quiz_failure:
  "generate_quiz model s text n qt = (Inl e, s') \<longleftrightarrow>
     (\<exists>e0. model s (quiz_prompt text n qt) = (Inl e0, s') \<and>
        e = Exn ''Exception'' (lit ''Quiz generation failed: '' @ exn_str e0))"
  by (cases "model s (quiz_prompt text n qt)")
     (auto simp: generate_quiz_def split: sum.splits)






lemma regenerate_loop_returns:
  assumes "\<forall>r \<in> set (replies model s (quiz_prompt text n qt) k). \<not> isl r"
    and "k \<noteq> 0 \<or> q0 \<noteq> None"
  shows "\<exists>qs s'. regenerate_loop d model text n qt k s q0 = (Inr qs, s')"
  using assms
proof (induction k arbitrary: s q0)
  case 0
  then show ?case by (cases q0) auto
next
  case (Suc k)
  let ?P = "quiz_prompt text n qt"
  obtain r s1 where c: "model s ?P = (r, s1)" by (cases "model s ?P") auto
  with Suc.prems(1) obtain t where r: "r = Inr t"
    and rest: "\<forall>r \<in> set (replies model s1 ?P k). \<not> isl r"
    by (cases r) auto
  have g: "generate_quiz model s text n qt = (Inr t, s1)"
    using c r by (simp add: generate_quiz_def)
  from Suc.IH[OF rest, of "Some (parse_quiz_response d t qt)"]
  obtain qs s' where "regenerate_loop d model text n qt k s1 (Some (parse_quiz_response d t qt)) = (Inr qs, s')"
    by auto
  with g show ?case by (simp add: Let_def)
qed

text \<open>
  Claim C10. With \<^verbatim>\<open>max_attempts\<close> 0 (or less) the loop body never runs and
  \<^verbatim>\<open>return questions\<close> raises \<^verbatim>\<open>UnboundLocalError\<close>, without a call of the
  model; with \<^verbatim>\<open>max_attempts\<close> at least 1 and no failing call, a list of records is
  returned.
\<close>

theorem zero_attempts_unbound:
  "(max_attempts \<le> 0 \<longrightarrow>
      regenerate_if_needed isdecimal model s text num_questions question_type max_attempts =
        (Inl (UnboundLocalError ''questions''), s)) \<and>
   (1 \<le> max_attempts \<and>
    (\<forall>r \<in> set (replies model s (quiz_prompt text num_questions question_type) (nat max_attempts)). \<not> isl r) \<longrightarrow>
      (\<exists>qs s'. regenerate_if_needed isdecimal model s text num_questions question_type max_attempts =
         (Inr qs, s')))"
proof (intro conjI impI)
  assume "max_attempts \<le> 0"
  then show "regenerate_if_needed isdecimal model s text num_questions question_type max_attempts =
        (Inl (UnboundLocalError ''questions''), s)"
    by (simp add: regenerate_if_needed_def)
next
  assume a: "1 \<le> max_attempts \<and>
    (\<forall>r \<in> set (replies model s (quiz_prompt text num_questions question_type) (nat max_attempts)). \<not> isl r)"
  then have "nat max_attempts \<noteq> 0 \<or> (None :: quiz_question list option) \<noteq> None" by simp
  from regenerate_loop_returns[OF conjunct2[OF a] this]
  show "\<exists>qs s'. regenerate_if_needed isdecimal model s text num_questions question_type max_attempts =
         (Inr qs, s')"
    by (simp add: regenerate_if_needed_def)
qed

theorem zero_attempts_unbound_witness:
  "regenerate_if_needed ascii_decimal scripted [Inr true_false_completion] (lit ''notes'') 3 (lit ''true_false'') 0 =
     (Inl (UnboundLocalError ''questions''), [Inr true_false_completion]) \<and>
   regenerate_if_needed ascii_decimal scripted [Inr true_false_completion] (lit ''notes'') 3 (lit ''true_false'') 1 =
     (Inr [sample_true_false], [])"
  using zero_attempts_unbound [of 0 ascii_decimal scripted "[Inr true_false_completion]" "lit ''notes''" 3 "lit ''true_false''"]
    zero_attempts_unbound [of 1 ascii_decimal scripted "[Inr true_false_completion]" "lit ''notes''" 3 "lit ''true_false''"]
  by (simp add: regenerate_if_needed_def generate_quiz_def parse_true_false_completion validate_sample_true_false)

section \<open>Properties of parse\_quiz\_response\<close>

lemma parse_loop_records:
  "parse_loop blocks questions = questions @ concat (map block_records blocks)"
  by (induction blocks arbitrary: questions) (auto simp: block_records_def split: sum.splits)



lemma has_option_letter_newline [simp]: "has_option_letter (10 # cs) = has_option_letter cs"
  by (cases cs) (auto simp: option_letter_def)















lemma ci_char_values:
  "ci_char 116 c \<longleftrightarrow> c = 116 \<or> c = 84"
  "ci_char 114 c \<longleftrightarrow> c = 114 \<or> c = 82"
  "ci_char 117 c \<longleftrightarrow> c = 117 \<or> c = 85"
  "ci_char 101 c \<longleftrightarrow> c = 101 \<or> c = 69"
  "ci_char 102 c \<longleftrightarrow> c = 102 \<or> c = 70"
  "ci_char 97 c \<longleftrightarrow> c = 97 \<or> c = 65"
  "ci_char 108 c \<longleftrightarrow> c = 108 \<or> c = 76"
  "ci_char 115 c \<longleftrightarrow> c = 115 \<or> c = 83 \<or> c = 383"
  by (simp_all add: ci_char_def upper_cp_def)

lemma capitalize_true:
  assumes "ci_char 116 c1" "ci_char 114 c2" "ci_char 117 c3" "ci_char 101 c4"
  shows "capitalize [c1, c2, c3, c4] = [84, 114, 117, 101]"
proof -
  have 1: "upper_cp c1 = 84" using assms(1) unfolding ci_char_values by (elim disjE; simp add: upper_cp_def)
  have 2: "lower_cp c2 = 114" using assms(2) unfolding ci_char_values by (elim disjE; simp add: lower_cp_def)
  have 3: "lower_cp c3 = 117" using assms(3) unfolding ci_char_values by (elim disjE; simp add: lower_cp_def)
  have 4: "lower_cp c4 = 101" using assms(4) unfolding ci_char_values by (elim disjE; simp add: lower_cp_def)
  show ?thesis by (simp add: capitalize_def 1 2 3 4)
qed

lemma capitalize_false:
  assumes "ci_char 102 c1" "ci_char 97 c2" "ci_char 108 c3" "ci_char 115 c4" "ci_char 101 c5"
  shows "capitalize [c1, c2, c3, c4, c5] = [70, 97, 108, 115, 101] \<or>
         capitalize [c1, c2, c3, c4, c5] = [70, 97, 108, 383, 101]"
proof -
  have 1: "upper_cp c1 = 70" using assms(1) unfolding ci_char_values by (elim disjE; simp add: upper_cp_def)
  have 2: "lower_cp c2 = 97" using assms(2) unfolding ci_char_values by (elim disjE; simp add: lower_cp_def)
  have 3: "lower_cp c3 = 108" using assms(3) unfolding ci_char_values by (elim disjE; simp add: lower_cp_def)
  have 4: "lower_cp c4 = 115 \<or> lower_cp c4 = 383" using assms(4) unfolding ci_char_values by (elim disjE; simp add: lower_cp_def)
  have 5: "lower_cp c5 = 101" using assms(5) unfolding ci_char_values by (elim disjE; simp add: lower_cp_def)
  from 4 show ?thesis by (elim disjE; simp add: capitalize_def 1 2 3 5)
qed


lemma ci_startswith_Cons:
  "ci_startswith s (p # ps) \<longleftrightarrow> (\<exists>c cs. s = c # cs \<and> ci_char p c \<and> ci_startswith cs ps)"
  by (cases s) simp_all

lemma lit_true_false:
  "lit ''true'' = [116, 114, 117, 101]" "lit ''false'' = [102, 97, 108, 115, 101]"
  "lit ''True'' = [84, 114, 117, 101]" "lit ''False'' = [70, 97, 108, 115, 101]"
  by (simp_all add: lit_def)

lemma true_false_group_capitalize:
  assumes "true_false_group r = Some g"
  shows "capitalize g = lit ''True'' \<or> capitalize g = lit ''False'' \<or>
         capitalize g = lit ''Fal'' @ [383] @ lit ''e''"
proof (cases "ci_startswith r (lit ''true'')")
  case True
  then have "\<exists>c1 c2 c3 c4 rest. r = c1 # c2 # c3 # c4 # rest \<and>
      ci_char 116 c1 \<and> ci_char 114 c2 \<and> ci_char 117 c3 \<and> ci_char 101 c4"
    unfolding lit_true_false ci_startswith_Cons by blast
  then obtain c1 c2 c3 c4 rest where r: "r = c1 # c2 # c3 # c4 # rest"
    and c: "ci_char 116 c1" "ci_char 114 c2" "ci_char 117 c3" "ci_char 101 c4"
    by blast
  from True assms r have "g = [c1, c2, c3, c4]" by (simp add: true_false_group_def)
  with capitalize_true[OF c] show ?thesis by (simp add: lit_def)
next
  case False
  with assms have f: "ci_startswith r (lit ''false'')" and g: "g = take 5 r"
    by (auto simp: true_false_group_def split: if_splits)
  from f have "\<exists>c1 c2 c3 c4 c5 rest. r = c1 # c2 # c3 # c4 # c5 # rest \<and>
      ci_char 102 c1 \<and> ci_char 97 c2 \<and> ci_char 108 c3 \<and> ci_char 115 c4 \<and> ci_char 101 c5"
    unfolding lit_true_false ci_startswith_Cons by blast
  then obtain c1 c2 c3 c4 c5 rest where r: "r = c1 # c2 # c3 # c4 # c5 # rest"
    and c: "ci_char 102 c1" "ci_char 97 c2" "ci_char 108 c3" "ci_char 115 c4" "ci_char 101 c5"
    by blast
  from g r have "g = [c1, c2, c3, c4, c5]" by simp
  with capitalize_false[OF c] show ?thesis by (auto simp: lit_def)
qed

lemma skip_spaces_Some: "skip_spaces k s = Some g \<Longrightarrow> \<exists>t. k t = Some g"
  by (induction s) (auto split: if_splits option.splits)

lemma search_correct_Some: "search_correct grp s = Some g \<Longrightarrow> \<exists>t. grp t = Some g"
proof (induction s)
  case Nil
  then show ?case by (auto simp: match_correct_def split: if_splits dest: skip_spaces_Some)
next
  case (Cons c cs)
  then show ?case
    by (auto simp: match_correct_def split: if_splits option.splits dest: skip_spaces_Some)
qed

lemma record_of_some_block:
  "r \<in> set (parse_quiz_response d quiz_text qt) \<Longrightarrow>
     \<exists>block rs. parse_block block = Inr rs \<and> r \<in> set rs"
proof -
  assume "r \<in> set (parse_quiz_response d quiz_text qt)"
  then obtain block where "r \<in> set (block_records block)"
    by (auto simp: parse_quiz_response_def parse_loop_records)
  then show ?thesis
    by (cases "parse_block block") (auto simp: block_records_def split: if_splits)
qed

text \<open>
  The part of the invariant that holds for every completion: a record of type
  \<^verbatim>\<open>mcq\<close> has exactly 4 options and its correct answer is one of them.
\<close>

lemma mcq_record_invariant:
  assumes "r \<in> set (parse_quiz_response d quiz_text qt)" and "qtype r = lit ''mcq''"
  shows "\<exists>os. options r = Some os \<and> length os = 4 \<and> correct_answer r \<in> set os"
proof -
  from record_of_some_block[OF assms(1)] obtain block rs
    where b: "parse_block block = Inr rs" "r \<in> set rs" by blast
  have ne: "lit ''true_false'' \<noteq> lit ''mcq''" by (simp add: lit_def)
  from b assms(2) ne show ?thesis
    by (auto simp del: options_loop.simps
        simp: parse_block_def parse_mcq_def parse_true_false_def Let_def
        split: option.splits if_splits)
qed

text \<open>
  A record of type \<^verbatim>\<open>true_false\<close> has no options, and its correct answer is
  \<^verbatim>\<open>True\<close>, \<^verbatim>\<open>False\<close>, or \<^verbatim>\<open>Fal\<close>, U+017F, \<^verbatim>\<open>e\<close>.
\<close>

lemma true_false_record_answers:
  assumes "r \<in> set (parse_quiz_response d quiz_text qt)" and "qtype r = lit ''true_false''"
  shows "options r = None \<and>
         (correct_answer r = lit ''True'' \<or> correct_answer r = lit ''False'' \<or>
          correct_answer r = lit ''Fal'' @ [383] @ lit ''e'')"
proof -
  from record_of_some_block[OF assms(1)] obtain block rs
    where b: "parse_block block = Inr rs" "r \<in> set rs" by blast
  have ne: "lit ''true_false'' \<noteq> lit ''mcq''" by (simp add: lit_def)
  from b assms(2) ne obtain g where "search_correct true_false_group block = Some g"
    and r: "options r = None" "correct_answer r = capitalize g"
    by (auto simp del: options_loop.simps
        simp: parse_block_def parse_mcq_def parse_true_false_def Let_def
        split: option.splits if_splits)
  from search_correct_Some[OF this(1)] obtain t where "true_false_group t = Some g" by blast
  from true_false_group_capitalize[OF this] r show ?thesis by simp
qed

lemma record_types:
  assumes "r \<in> set (parse_quiz_response d quiz_text qt)"
  shows "qtype r = lit ''mcq'' \<or> qtype r = lit ''true_false''"
proof -
  from record_of_some_block[OF assms(1)] obtain block rs
    where b: "parse_block block = Inr rs" "r \<in> set rs" by blast
  then show ?thesis
    by (auto simp del: options_loop.simps
        simp: parse_block_def parse_mcq_def parse_true_false_def Let_def
        split: option.splits if_splits)
qed

text \<open>
  Claim C1. Every record of \<^verbatim>\<open>parse_quiz_response\<close> should satisfy the invariants of
  the data model; a record of type \<^verbatim>\<open>true_false\<close> should have the correct answer
  \<^verbatim>\<open>True\<close> or \<^verbatim>\<open>False\<close>. Under \<^verbatim>\<open>re.IGNORECASE\<close> the letter s of the pattern
  also matches U+017F, which \<^verbatim>\<open>capitalize\<close> leaves as it is: for the completion
  \<^verbatim>\<open>Q: Water is dry.\<close>, newline, \<^verbatim>\<open>Correct: fal\<close>, U+017F, \<^verbatim>\<open>e\<close> the correct answer
  of the record is neither of the two.
\<close>

theorem long_s_answer_not_normalised:
  "parse_quiz_response ascii_decimal long_s_completion (lit ''true_false'') =
     [\<lparr>question = lit ''Water is dry.'', options = None,
       correct_answer = lit ''Fal'' @ [383] @ lit ''e'', qtype = lit ''true_false''\<rparr>] \<and>
   lit ''Fal'' @ [383] @ lit ''e'' \<noteq> lit ''True'' \<and>
   lit ''Fal'' @ [383] @ lit ''e'' \<noteq> lit ''False''"
  by (simp add: long_s_completion_def parse_eval)

text \<open>
  Claim C9. The result of \<^verbatim>\<open>parse_quiz_response\<close> does not depend on its argument
  \<^verbatim>\<open>question_type\<close>.
\<close>

theorem parse_quiz_response_question_type_irrelevant:
  "parse_quiz_response isdecimal quiz_text t1 = parse_quiz_response isdecimal quiz_text t2"
  by (simp add: parse_quiz_response_def)

theorem parse_quiz_response_question_type_irrelevant_witness:
  "parse_quiz_response ascii_decimal true_false_completion (lit ''mcq'') = [sample_true_false] \<and>
   parse_quiz_response ascii_decimal true_false_completion (lit ''true_false'') = [sample_true_false]"
  using parse_quiz_response_question_type_irrelevant [of ascii_decimal true_false_completion "lit ''mcq''" "lit ''true_false''"]
  by (simp add: parse_true_false_completion)


end
